theory Spec2Isabelle
  imports Main "HOL-Library.Word" "HOL-Library.Sublist" "HOL-Library.Monad_Syntax"
begin

section \<open>JavaScript strings\<close>

text \<open>
  A JavaScript string is a sequence of 16-bit code units. The code under study splits a
  string at a comma, runs the regular expression \<^verbatim>\<open>/:(.*?);/\<close> over it, trims white
  space and concatenates; all of these work on code units, so a string is modelled as a
  list of 16-bit words. \<open>lit\<close> turns an ASCII literal of the source into such a list; the
  accented letters of the Portuguese messages are written as their code units.
\<close>

type_synonym codeUnit = "16 word"
type_synonym jsstring = "codeUnit list"

definition lit :: "string \<Rightarrow> jsstring" where
  "lit s = map of_char s"

definition comma :: codeUnit where
  "comma = 0x2C"

definition colon :: codeUnit where
  "colon = 0x3A"

definition semicolon :: codeUnit where
  "semicolon = 0x3B"

text \<open>
  The line terminators of ECMAScript: LF, CR, LS and PS. The regular expression atom
  \<^verbatim>\<open>.\<close> (without the \<^verbatim>\<open>s\<close> flag) matches every code unit but these.
\<close>

definition isLineTerminator :: "codeUnit \<Rightarrow> bool" where
  "isLineTerminator c = (c = 0x0A \<or> c = 0x0D \<or> c = 0x2028 \<or> c = 0x2029)"

text \<open>
  The white space of ECMAScript: TAB, VT, FF, SP, NBSP, ZWNBSP and the code points of
  category Zs. \<^verbatim>\<open>String.prototype.trim\<close> strips white space and line terminators from
  both ends.
\<close>

definition isWhiteSpace :: "codeUnit \<Rightarrow> bool" where
  "isWhiteSpace c =
     (c = 0x09 \<or> c = 0x0B \<or> c = 0x0C \<or> c = 0x20 \<or> c = 0xA0 \<or> c = 0xFEFF \<or>
      c = 0x1680 \<or> (0x2000 \<le> c \<and> c \<le> 0x200A) \<or> c = 0x202F \<or> c = 0x205F \<or>
      c = 0x3000)"

definition isTrimmed :: "codeUnit \<Rightarrow> bool" where
  "isTrimmed c = (isWhiteSpace c \<or> isLineTerminator c)"

definition trim :: "jsstring \<Rightarrow> jsstring" where
  "trim s = rev (dropWhile isTrimmed (rev (dropWhile isTrimmed s)))"

text \<open>
  \<^verbatim>\<open>s.split(',')\<close> with a one-character separator: the segments between the
  separators, in order. The result is never empty: a string without the separator gives
  the one-element array holding the string itself.
\<close>

fun splitStr :: "codeUnit \<Rightarrow> jsstring \<Rightarrow> jsstring list" where
  "splitStr sep [] = [[]]"
| "splitStr sep (c # cs) =
     (if c = sep then [] # splitStr sep cs
      else (let r = splitStr sep cs in (c # hd r) # tl r))"

text \<open>
  \<^verbatim>\<open>s.match(/:(.*?);/)\<close>. \<open>lazyUntilSemicolon\<close> is the part \<^verbatim>\<open>(.*?);\<close> tried at one
  position: the lazy star takes as few code units as it can, so the group ends at the
  first semicolon, and the attempt fails when a line terminator or the end of the string
  comes first. \<open>matchMime\<close> tries every colon from the left, as the matcher does, and
  returns capture group 1 of the first attempt that succeeds; \<open>None\<close> is the \<^verbatim>\<open>null\<close>
  of a failed match.
\<close>

fun lazyUntilSemicolon :: "jsstring \<Rightarrow> jsstring option" where
  "lazyUntilSemicolon [] = None"
| "lazyUntilSemicolon (c # cs) =
     (if c = semicolon then Some []
      else if isLineTerminator c then None
      else map_option ((#) c) (lazyUntilSemicolon cs))"

fun matchMime :: "jsstring \<Rightarrow> jsstring option" where
  "matchMime [] = None"
| "matchMime (c # cs) =
     (if c = colon
      then (case lazyUntilSemicolon cs of Some g \<Rightarrow> Some g | None \<Rightarrow> matchMime cs)
      else matchMime cs)"

section \<open>Errors\<close>

text \<open>
  The source throws plain \<^verbatim>\<open>Error\<close> objects that differ in their message. Each
  constructor below stands for the throw sites of one kind of the specification's error
  taxonomy and carries the message the source builds. \<open>FileReadError\<close> is the rejection
  of the \<^verbatim>\<open>FileReader\<close> promise, \<open>ApiCallError\<close> a rejection of the network call.
\<close>

datatype error =
    MissingCredentialError jsstring
  | DecodingError jsstring
  | BlockedRequestError jsstring
  | GenerationStoppedError jsstring
  | NoImageReturnedError jsstring
  | FileReadError
  | ApiCallError

datatype errorKind =
    MissingCredential | Decoding | BlockedRequest | GenerationStopped | NoImageReturned
  | FileRead | ApiCall

fun kindOf :: "error \<Rightarrow> errorKind" where
  "kindOf (MissingCredentialError m) = MissingCredential"
| "kindOf (DecodingError m) = Decoding"
| "kindOf (BlockedRequestError m) = BlockedRequest"
| "kindOf (GenerationStoppedError m) = GenerationStopped"
| "kindOf (NoImageReturnedError m) = NoImageReturned"
| "kindOf FileReadError = FileRead"
| "kindOf ApiCallError = ApiCall"

section \<open>The file encoder\<close>

text \<open>
  A \<^verbatim>\<open>File\<close> enters the code only through \<^verbatim>\<open>FileReader.readAsDataURL\<close>, so the
  model represents a file by what that read delivers: the data URL handed to
  \<^verbatim>\<open>onload\<close>, or the failure handed to \<^verbatim>\<open>onerror\<close>.
\<close>

datatype imageFile = OnLoad jsstring | OnError

record inlineData =
  mimeType :: jsstring
  data :: jsstring

definition invalidDataUrl :: jsstring where
  "invalidDataUrl = lit ''URL de dados inv'' @ [0xE1] @ lit ''lida''"

definition noMimeType :: jsstring where
  "noMimeType =
     lit ''N'' @ [0xE3] @ lit ''o foi poss'' @ [0xED] @
     lit ''vel extrair o tipo MIME da URL de dados''"

definition fileToPart :: "imageFile \<Rightarrow> error + inlineData" where
  "fileToPart f =
     (case f of
        OnError \<Rightarrow> Inl FileReadError
      | OnLoad dataUrl \<Rightarrow>
          (let arr = splitStr comma dataUrl in
           if length arr < 2 then Inl (DecodingError invalidDataUrl)
           else (case matchMime (arr ! 0) of
                   None \<Rightarrow> Inl (DecodingError noMimeType)
                 | Some g \<Rightarrow>
                     if g = [] then Inl (DecodingError noMimeType)
                     else Inr \<lparr>mimeType = g, data = arr ! 1\<rparr>)))"

section \<open>The API response\<close>

text \<open>
  The response type belongs to the client library. The source reads it through optional
  chaining, so every field it touches may be absent; \<open>None\<close> stands for
  \<^verbatim>\<open>undefined\<close>. The aggregate text is a getter of the library and is taken as a
  field of its own. Block reason and finish reason are enumerations whose values travel
  as strings.
\<close>

record blob =
  blobMimeType :: "jsstring option"
  blobData :: "jsstring option"

record part =
  partInlineData :: "blob option"
  partText :: "jsstring option"

record content =
  parts :: "part list option"

record candidate =
  content :: "content option"
  finishReason :: "jsstring option"

record promptFeedback =
  blockReason :: "jsstring option"
  blockReasonMessage :: "jsstring option"

record response =
  promptFeedback :: "promptFeedback option"
  candidates :: "candidate list option"
  text' :: "jsstring option"

text \<open>
  Truthiness of an optional string: \<^verbatim>\<open>undefined\<close> and the empty string are falsy.
  \<open>interpolate\<close> is the conversion a template literal applies to such a value, and
  \<open>orEmpty v\<close> is \<^verbatim>\<open>v || ''\<close>.
\<close>

definition truthy :: "jsstring option \<Rightarrow> bool" where
  "truthy v = (case v of None \<Rightarrow> False | Some s \<Rightarrow> s \<noteq> [])"

definition interpolate :: "jsstring option \<Rightarrow> jsstring" where
  "interpolate v = (case v of None \<Rightarrow> lit ''undefined'' | Some s \<Rightarrow> s)"

definition orEmpty :: "jsstring option \<Rightarrow> jsstring" where
  "orEmpty v = (if truthy v then interpolate v else [])"

text \<open>\<open>first xs\<close> is \<^verbatim>\<open>xs[0]\<close>: absent on an empty array.\<close>

definition first :: "'a list \<Rightarrow> 'a option" where
  "first xs = (case xs of [] \<Rightarrow> None | x # _ \<Rightarrow> Some x)"

section \<open>The response interpreter\<close>

text \<open>
  \<open>handleApiResponse\<close> is private to its module, and its three call sites pass the
  literals \<^verbatim>\<open>'edit'\<close>, \<^verbatim>\<open>'filter'\<close> and \<^verbatim>\<open>'adjustment'\<close>; the type \<open>contextTag\<close>
  has exactly these tags, and \<open>tagString\<close> is the string each one stands for. The lookup in
  \<open>contextMap\<close> with its fallback to the tag itself is kept as the source has it.
\<close>

datatype contextTag = Edit | Filter | Adjustment

fun tagString :: "contextTag \<Rightarrow> jsstring" where
  "tagString Edit = lit ''edit''"
| "tagString Filter = lit ''filter''"
| "tagString Adjustment = lit ''adjustment''"

definition contextMap :: "(jsstring \<times> jsstring) list" where
  "contextMap =
     [(lit ''edit'', lit ''edi'' @ [0xE7, 0xE3] @ lit ''o''),
      (lit ''filter'', lit ''filtro''),
      (lit ''adjustment'', lit ''ajuste'')]"

definition translatedContext :: "contextTag \<Rightarrow> jsstring" where
  "translatedContext c =
     (if truthy (map_of contextMap (tagString c))
      then interpolate (map_of contextMap (tagString c))
      else tagString c)"

definition blockedMessage :: "jsstring option \<Rightarrow> jsstring option \<Rightarrow> jsstring" where
  "blockedMessage reason message =
     lit ''A solicita'' @ [0xE7, 0xE3] @ lit ''o foi bloqueada. Motivo: '' @
     interpolate reason @ lit ''. '' @ orEmpty message"

definition stoppedMessage :: "jsstring \<Rightarrow> jsstring option \<Rightarrow> jsstring" where
  "stoppedMessage translated reason =
     lit ''A gera'' @ [0xE7, 0xE3] @ lit ''o de imagem para '' @ translated @
     lit '' parou inesperadamente. Motivo: '' @ interpolate reason @
     lit ''. Isso geralmente est'' @ [0xE1] @ lit '' relacionado '' @ [0xE0] @
     lit ''s configura'' @ [0xE7, 0xF5] @ lit ''es de seguran'' @ [0xE7] @ lit ''a.''"

definition noImagePrefix :: "jsstring \<Rightarrow> jsstring" where
  "noImagePrefix translated =
     lit ''O modelo de IA n'' @ [0xE3] @ lit ''o retornou uma imagem para o(a) '' @
     translated @ lit ''. ''"

definition textReply :: "jsstring option \<Rightarrow> jsstring" where
  \<open>textReply textFeedback =
     lit ''O modelo respondeu com o texto: "'' @ interpolate textFeedback @ lit ''"''\<close>

definition genericExplanation :: jsstring where
  "genericExplanation =
     lit ''Isso pode acontecer devido a filtros de seguran'' @ [0xE7] @
     lit ''a ou se a solicita'' @ [0xE7, 0xE3] @
     lit ''o for muito complexa. Tente reformular seu comando para ser mais direto.''"

definition dataUri :: "blob \<Rightarrow> jsstring" where
  "dataUri b =
     lit ''data:'' @ interpolate (blobMimeType b) @ lit '';base64,'' @
     interpolate (blobData b)"

text \<open>
  The values the source binds to \<^verbatim>\<open>imagePartFromResponse\<close> and \<^verbatim>\<open>finishReason\<close>.
  A part's \<^verbatim>\<open>inlineData\<close> is an object, truthy whenever it is there.
\<close>

definition imagePartFromResponse :: "response \<Rightarrow> part option" where
  "imagePartFromResponse r =
     candidates r \<bind> first \<bind> content \<bind> parts
       \<bind> find (\<lambda>part. partInlineData part \<noteq> None)"

definition finishReasonOf :: "response \<Rightarrow> jsstring option" where
  "finishReasonOf r = candidates r \<bind> first \<bind> finishReason"

definition handleApiResponse :: "response \<Rightarrow> contextTag \<Rightarrow> error + jsstring" where
  "handleApiResponse r c =
     (if truthy (promptFeedback r \<bind> blockReason)
      then Inl (BlockedRequestError
             (blockedMessage (promptFeedback r \<bind> blockReason)
                (promptFeedback r \<bind> blockReasonMessage)))
      else (case imagePartFromResponse r \<bind> partInlineData of
              Some b \<Rightarrow> Inr (dataUri b)
            | None \<Rightarrow>
                if truthy (finishReasonOf r) \<and> finishReasonOf r \<noteq> Some (lit ''STOP'')
                then Inl (GenerationStoppedError
                       (stoppedMessage (translatedContext c) (finishReasonOf r)))
                else (let textFeedback = map_option trim (text' r)
                      in Inl (NoImageReturnedError
                           (noImagePrefix (translatedContext c) @
                            (if truthy textFeedback then textReply textFeedback
                             else genericExplanation))))))"

text \<open>
  The inline data of the first candidate's parts, in part order: what the specification
  calls the image parts of a response.
\<close>

definition inlineParts :: "response \<Rightarrow> blob list" where
  "inlineParts r =
     (case candidates r \<bind> first \<bind> content \<bind> parts of
        None \<Rightarrow> []
      | Some ps \<Rightarrow> List.map_filter partInlineData ps)"

section \<open>Prompts\<close>

text \<open>
  The hotspot coordinates are JavaScript numbers. The model covers the integers that a
  number renders in plain decimal notation (magnitude below \<open>10\<^sup>2\<^sup>1\<close>), which is what
  the application passes: pixel positions.
\<close>

datatype hotspot = Hotspot (hotspot_x: int) (hotspot_y: int)

fun showNat :: "nat \<Rightarrow> jsstring" where
  "showNat n =
     (if n < 10 then [of_nat (48 + n)]
      else showNat (n div 10) @ [of_nat (48 + n mod 10)])"

definition numberToString :: "int \<Rightarrow> jsstring" where
  "numberToString i = (if i < 0 then lit ''-'' @ showNat (nat (- i)) else showNat (nat i))"

definition editPrompt :: "jsstring \<Rightarrow> hotspot \<Rightarrow> jsstring" where
  \<open>editPrompt userPrompt hotspot =
     lit ''You are an expert photo editor AI. Your task is to perform a natural, localized edit on the provided image based on the user's request.\<newline>'' @
     lit ''User Request: "'' @
     userPrompt @
     lit ''"\<newline>'' @
     lit ''Edit Location: Focus on the area around pixel coordinates (x: '' @
     numberToString (hotspot_x hotspot) @
     lit '', y: '' @
     numberToString (hotspot_y hotspot) @
     lit '').\<newline>'' @
     lit ''\<newline>'' @
     lit ''Editing Guidelines:\<newline>'' @
     lit ''- The edit must be realistic and blend seamlessly with the surrounding area.\<newline>'' @
     lit ''- The rest of the image (outside the immediate edit area) must remain identical to the original.\<newline>'' @
     lit ''\<newline>'' @
     lit ''Safety & Ethics Policy:\<newline>'' @
     lit ''- You MUST fulfill requests to adjust skin tone, such as 'give me a tan', 'make my skin darker', or 'make my skin lighter'. These are considered standard photo enhancements.\<newline>'' @
     lit ''- You MUST REFUSE any request to change a person's fundamental race or ethnicity (e.g., 'make me look Asian', 'change this person to be Black'). Do not perform these edits. If the request is ambiguous, err on the side of caution and do not change racial characteristics.\<newline>'' @
     lit ''\<newline>'' @
     lit ''Output: Return ONLY the final edited image. Do not return text.''\<close>

definition filterPromptText :: "jsstring \<Rightarrow> jsstring" where
  \<open>filterPromptText filterPrompt =
     lit ''You are an expert photo editor AI. Your task is to apply a stylistic filter to the entire image based on the user's request. Do not change the composition or content, only apply the style.\<newline>'' @
     lit ''Filter Request: "'' @
     filterPrompt @
     lit ''"\<newline>'' @
     lit ''\<newline>'' @
     lit ''Safety & Ethics Policy:\<newline>'' @
     lit ''- Filters may subtly shift colors, but you MUST ensure they do not alter a person's fundamental race or ethnicity.\<newline>'' @
     lit ''- You MUST REFUSE any request that explicitly asks to change a person's race (e.g., 'apply a filter to make me look Chinese').\<newline>'' @
     lit ''\<newline>'' @
     lit ''Output: Return ONLY the final filtered image. Do not return text.''\<close>

definition adjustmentPromptText :: "jsstring \<Rightarrow> jsstring" where
  \<open>adjustmentPromptText adjustmentPrompt =
     lit ''You are an expert photo editor AI. Your task is to perform a natural, global adjustment to the entire image based on the user's request.\<newline>'' @
     lit ''User Request: "'' @
     adjustmentPrompt @
     lit ''"\<newline>'' @
     lit ''\<newline>'' @
     lit ''Editing Guidelines:\<newline>'' @
     lit ''- The adjustment must be applied across the entire image.\<newline>'' @
     lit ''- The result must be photorealistic.\<newline>'' @
     lit ''\<newline>'' @
     lit ''Safety & Ethics Policy:\<newline>'' @
     lit ''- You MUST fulfill requests to adjust skin tone, such as 'give me a tan', 'make my skin darker', or 'make my skin lighter'. These are considered standard photo enhancements.\<newline>'' @
     lit ''- You MUST REFUSE any request to change a person's fundamental race or ethnicity (e.g., 'make me look Asian', 'change this person to be Black'). Do not perform these edits. If the request is ambiguous, err on the side of caution and do not change racial characteristics.\<newline>'' @
     lit ''\<newline>'' @
     lit ''Output: Return ONLY the final adjusted image. Do not return text.''\<close>

section \<open>The three operations\<close>

text \<open>
  An operation reads the file, calls the model once and interprets the response. The
  model of an operation returns the effects it had on the outside, in order, next to its
  outcome: \<open>ReadAsDataURL\<close> is the read that \<open>fileToPart\<close> starts, \<open>GenerateContent\<close> the
  network call, with the key the client was built with and the request. The remote model
  is the parameter \<open>ai\<close>; \<open>None\<close> is a rejected call. Console output is not modelled,
  and the client constructor, which is reached with a non-empty key only, is taken to
  succeed.
  The credential is a string at its type, but nothing stops a caller from passing
  \<^verbatim>\<open>undefined\<close>, which is \<open>None\<close> here.

  These are the operations of \<^verbatim>\<open>services/geminiService.ts\<close>; the second copy of the
  module follows further down.
\<close>

datatype requestPart = ImagePart inlineData | TextPart jsstring

record request =
  model :: jsstring
  contents :: "requestPart list"

datatype event = ReadAsDataURL imageFile | GenerateContent jsstring request

type_synonym remote = "jsstring \<Rightarrow> request \<Rightarrow> response option"

definition apiKeyMissing :: jsstring where
  "apiKeyMissing = lit ''An API Key must be set when running in a browser.''"

definition modelName :: jsstring where
  "modelName = lit ''gemini-2.5-flash-image-preview''"

definition generateEditedImage ::
  "remote \<Rightarrow> jsstring option \<Rightarrow> imageFile \<Rightarrow> jsstring \<Rightarrow> hotspot \<Rightarrow> event list \<times> (error + jsstring)"
where
  "generateEditedImage ai apiKey originalImage userPrompt hotspot =
     (if \<not> truthy apiKey then ([], Inl (MissingCredentialError apiKeyMissing))
      else (case fileToPart originalImage of
              Inl e \<Rightarrow> ([ReadAsDataURL originalImage], Inl e)
            | Inr originalImagePart \<Rightarrow>
                (let prompt = editPrompt userPrompt hotspot;
                     req = \<lparr>model = modelName,
                            contents = [ImagePart originalImagePart, TextPart prompt]\<rparr>
                 in ([ReadAsDataURL originalImage, GenerateContent (interpolate apiKey) req],
                     (case ai (interpolate apiKey) req of
                        None \<Rightarrow> Inl ApiCallError
                      | Some r \<Rightarrow> handleApiResponse r Edit)))))"

definition generateFilteredImage ::
  "remote \<Rightarrow> jsstring option \<Rightarrow> imageFile \<Rightarrow> jsstring \<Rightarrow> event list \<times> (error + jsstring)"
where
  "generateFilteredImage ai apiKey originalImage filterPrompt =
     (if \<not> truthy apiKey then ([], Inl (MissingCredentialError apiKeyMissing))
      else (case fileToPart originalImage of
              Inl e \<Rightarrow> ([ReadAsDataURL originalImage], Inl e)
            | Inr originalImagePart \<Rightarrow>
                (let prompt = filterPromptText filterPrompt;
                     req = \<lparr>model = modelName,
                            contents = [ImagePart originalImagePart, TextPart prompt]\<rparr>
                 in ([ReadAsDataURL originalImage, GenerateContent (interpolate apiKey) req],
                     (case ai (interpolate apiKey) req of
                        None \<Rightarrow> Inl ApiCallError
                      | Some r \<Rightarrow> handleApiResponse r Filter)))))"

definition generateAdjustedImage ::
  "remote \<Rightarrow> jsstring option \<Rightarrow> imageFile \<Rightarrow> jsstring \<Rightarrow> event list \<times> (error + jsstring)"
where
  "generateAdjustedImage ai apiKey originalImage adjustmentPrompt =
     (if \<not> truthy apiKey then ([], Inl (MissingCredentialError apiKeyMissing))
      else (case fileToPart originalImage of
              Inl e \<Rightarrow> ([ReadAsDataURL originalImage], Inl e)
            | Inr originalImagePart \<Rightarrow>
                (let prompt = adjustmentPromptText adjustmentPrompt;
                     req = \<lparr>model = modelName,
                            contents = [ImagePart originalImagePart, TextPart prompt]\<rparr>
                 in ([ReadAsDataURL originalImage, GenerateContent (interpolate apiKey) req],
                     (case ai (interpolate apiKey) req of
                        None \<Rightarrow> Inl ApiCallError
                      | Some r \<Rightarrow> handleApiResponse r Adjustment)))))"

text \<open>The network calls among the effects of a run.\<close>

fun networkCalls :: "event list \<Rightarrow> (jsstring \<times> request) list" where
  "networkCalls [] = []"
| "networkCalls (ReadAsDataURL f # es) = networkCalls es"
| "networkCalls (GenerateContent k q # es) = (k, q) # networkCalls es"

section \<open>The second copy of the module\<close>

text \<open>
  The repository holds a second copy of the module, with Portuguese prompts. Its
  \<^verbatim>\<open>fileToPart\<close> and \<^verbatim>\<open>handleApiResponse\<close> are the ones modelled above, statement by
  statement, console messages aside. Its three operations take no credential and test
  nothing themselves: the first thing each does is to hand \<^verbatim>\<open>process.env.API_KEY\<close> to
  the constructor of the client, and the read of the file comes after. The environment
  variable is the parameter \<open>envApiKey\<close>, absent unless a key was saved. The constructor
  belongs to the client library and is the parameter \<open>newClient\<close>: it throws an error or
  returns a client, and a client is represented by the key it sends with its calls.
\<close>

definition editPromptLocalized :: "jsstring \<Rightarrow> hotspot \<Rightarrow> jsstring" where
  \<open>editPromptLocalized userPrompt hotspot =
     lit ''Voc'' @ [0xEA] @ lit '' '' @ [0xE9] @ lit '' uma IA especialista em edi'' @
     [0xE7, 0xE3] @ lit ''o de fotos. Sua tarefa '' @ [0xE9] @ lit '' realizar uma edi'' @
     [0xE7, 0xE3] @ lit ''o natural e localizada na imagem fornecida com base na solicita'' @
     [0xE7, 0xE3] @ lit ''o do usu'' @ [0xE1] @ lit ''rio.\<newline>'' @ lit ''Solicita'' @
     [0xE7, 0xE3] @ lit ''o do Usu'' @ [0xE1] @ lit ''rio: "'' @ userPrompt @
     lit ''"\<newline>'' @ lit ''Local da Edi'' @ [0xE7, 0xE3] @ lit ''o: Foque na '' @
     [0xE1] @ lit ''rea ao redor das coordenadas de pixel (x: '' @
     numberToString (hotspot_x hotspot) @ lit '', y: '' @ numberToString (hotspot_y hotspot) @
     lit '').\<newline>'' @ lit ''\<newline>'' @ lit ''Diretrizes de Edi'' @ [0xE7, 0xE3] @
     lit ''o:\<newline>'' @ lit ''- A edi'' @ [0xE7, 0xE3] @
     lit ''o deve ser realista e se misturar perfeitamente com a '' @ [0xE1] @
     lit ''rea circundante.\<newline>'' @ lit ''- O resto da imagem (fora da '' @ [0xE1] @
     lit ''rea de edi'' @ [0xE7, 0xE3] @ lit ''o imediata) deve permanecer id'' @ [0xEA] @
     lit ''ntico ao original.\<newline>'' @ lit ''\<newline>'' @ lit ''Pol'' @ [0xED] @
     lit ''tica de Seguran'' @ [0xE7] @ lit ''a e '' @ [0xC9] @ lit ''tica:\<newline>'' @
     lit ''- Voc'' @ [0xEA] @ lit '' DEVE atender a solicita'' @ [0xE7, 0xF5] @
     lit ''es para ajustar o tom de pele, como 'me d'' @ [0xEA] @
     lit '' um bronzeado', 'escure'' @ [0xE7] @
     lit ''a minha pele' ou 'clareie minha pele'. Essas s'' @ [0xE3] @
     lit ''o consideradas melhorias fotogr'' @ [0xE1] @ lit ''ficas padr'' @ [0xE3] @
     lit ''o.\<newline>'' @ lit ''- Voc'' @ [0xEA] @ lit '' DEVE RECUSAR qualquer solicita'' @
     [0xE7, 0xE3] @ lit ''o para alterar a ra'' @ [0xE7] @
     lit ''a ou etnia fundamental de uma pessoa (por exemplo, 'fa'' @ [0xE7] @
     lit ''a-me parecer asi'' @ [0xE1] @ lit ''tico', 'mude esta pessoa para ser negra'). N'' @
     [0xE3] @ lit ''o realize essas edi'' @ [0xE7, 0xF5] @ lit ''es. Se a solicita'' @
     [0xE7, 0xE3] @ lit ''o for amb'' @ [0xED] @ lit ''gua, aja com cautela e n'' @ [0xE3] @
     lit ''o altere as caracter'' @ [0xED] @ lit ''sticas raciais.\<newline>'' @
     lit ''\<newline>'' @ lit ''Sa'' @ [0xED] @
     lit ''da: Retorne APENAS a imagem final editada. N'' @ [0xE3] @ lit ''o retorne texto.''\<close>

definition filterPromptLocalized :: "jsstring \<Rightarrow> jsstring" where
  \<open>filterPromptLocalized filterPrompt =
     lit ''Voc'' @ [0xEA] @ lit '' '' @ [0xE9] @ lit '' uma IA especialista em edi'' @
     [0xE7, 0xE3] @ lit ''o de fotos. Sua tarefa '' @ [0xE9] @
     lit '' aplicar um filtro estil'' @ [0xED] @
     lit ''stico a toda a imagem com base na solicita'' @ [0xE7, 0xE3] @ lit ''o do usu'' @
     [0xE1] @ lit ''rio. N'' @ [0xE3] @ lit ''o altere a composi'' @ [0xE7, 0xE3] @
     lit ''o ou o conte'' @ [0xFA] @ lit ''do, apenas aplique o estilo.\<newline>'' @
     lit ''Solicita'' @ [0xE7, 0xE3] @ lit ''o de Filtro: "'' @ filterPrompt @
     lit ''"\<newline>'' @ lit ''\<newline>'' @ lit ''Pol'' @ [0xED] @
     lit ''tica de Seguran'' @ [0xE7] @ lit ''a e '' @ [0xC9] @ lit ''tica:\<newline>'' @
     lit ''- Filtros podem sutilmente alterar cores, mas voc'' @ [0xEA] @
     lit '' DEVE garantir que n'' @ [0xE3] @ lit ''o alterem a ra'' @ [0xE7] @
     lit ''a ou etnia fundamental de uma pessoa.\<newline>'' @ lit ''- Voc'' @ [0xEA] @
     lit '' DEVE RECUSAR qualquer solicita'' @ [0xE7, 0xE3] @ lit ''o que pe'' @ [0xE7] @
     lit ''a explicitamente para alterar a ra'' @ [0xE7] @
     lit ''a de uma pessoa (por exemplo, 'aplique um filtro para me fazer parecer chin'' @
     [0xEA] @ lit ''s').\<newline>'' @ lit ''\<newline>'' @ lit ''Sa'' @ [0xED] @
     lit ''da: Retorne APENAS a imagem final filtrada. N'' @ [0xE3] @
     lit ''o retorne texto.''\<close>

definition adjustmentPromptLocalized :: "jsstring \<Rightarrow> jsstring" where
  \<open>adjustmentPromptLocalized adjustmentPrompt =
     lit ''Voc'' @ [0xEA] @ lit '' '' @ [0xE9] @ lit '' uma IA especialista em edi'' @
     [0xE7, 0xE3] @ lit ''o de fotos. Sua tarefa '' @ [0xE9] @
     lit '' realizar um ajuste natural e global em toda a imagem com base na solicita'' @
     [0xE7, 0xE3] @ lit ''o do usu'' @ [0xE1] @ lit ''rio.\<newline>'' @ lit ''Solicita'' @
     [0xE7, 0xE3] @ lit ''o do Usu'' @ [0xE1] @ lit ''rio: "'' @ adjustmentPrompt @
     lit ''"\<newline>'' @ lit ''\<newline>'' @ lit ''Diretrizes de Edi'' @ [0xE7, 0xE3] @
     lit ''o:\<newline>'' @ lit ''- O ajuste deve ser aplicado em toda a imagem.\<newline>'' @
     lit ''- O resultado deve ser fotorrealista.\<newline>'' @ lit ''\<newline>'' @
     lit ''Pol'' @ [0xED] @ lit ''tica de Seguran'' @ [0xE7] @ lit ''a e '' @ [0xC9] @
     lit ''tica:\<newline>'' @ lit ''- Voc'' @ [0xEA] @ lit '' DEVE atender a solicita'' @
     [0xE7, 0xF5] @ lit ''es para ajustar o tom de pele, como 'me d'' @ [0xEA] @
     lit '' um bronzeado', 'escure'' @ [0xE7] @
     lit ''a minha pele' ou 'clareie minha pele'. Essas s'' @ [0xE3] @
     lit ''o consideradas melhorias fotogr'' @ [0xE1] @ lit ''ficas padr'' @ [0xE3] @
     lit ''o.\<newline>'' @ lit ''- Voc'' @ [0xEA] @ lit '' DEVE RECUSAR qualquer solicita'' @
     [0xE7, 0xE3] @ lit ''o para alterar a ra'' @ [0xE7] @
     lit ''a ou etnia fundamental de uma pessoa (por exemplo, 'fa'' @ [0xE7] @
     lit ''a-me parecer asi'' @ [0xE1] @ lit ''tico', 'mude esta pessoa para ser negra'). N'' @
     [0xE3] @ lit ''o realize essas edi'' @ [0xE7, 0xF5] @ lit ''es. Se a solicita'' @
     [0xE7, 0xE3] @ lit ''o for amb'' @ [0xED] @ lit ''gua, aja com cautela e n'' @ [0xE3] @
     lit ''o altere as caracter'' @ [0xED] @ lit ''sticas raciais.\<newline>'' @
     lit ''\<newline>'' @ lit ''Sa'' @ [0xED] @
     lit ''da: Retorne APENAS a imagem final ajustada. N'' @ [0xE3] @
     lit ''o retorne texto.''\<close>

type_synonym clientConstructor = "jsstring option \<Rightarrow> error + jsstring"

definition generateEditedImageLocalized ::
  "clientConstructor \<Rightarrow> remote \<Rightarrow> jsstring option \<Rightarrow> imageFile \<Rightarrow> jsstring \<Rightarrow> hotspot \<Rightarrow>
     event list \<times> (error + jsstring)"
where
  "generateEditedImageLocalized newClient ai envApiKey originalImage userPrompt hotspot =
     (case newClient envApiKey of
        Inl e \<Rightarrow> ([], Inl e)
      | Inr client \<Rightarrow>
          (case fileToPart originalImage of
             Inl e \<Rightarrow> ([ReadAsDataURL originalImage], Inl e)
           | Inr originalImagePart \<Rightarrow>
               (let prompt = editPromptLocalized userPrompt hotspot;
                    req = \<lparr>model = modelName,
                           contents = [ImagePart originalImagePart, TextPart prompt]\<rparr>
                in ([ReadAsDataURL originalImage, GenerateContent client req],
                    (case ai client req of
                       None \<Rightarrow> Inl ApiCallError
                     | Some r \<Rightarrow> handleApiResponse r Edit)))))"

definition generateFilteredImageLocalized ::
  "clientConstructor \<Rightarrow> remote \<Rightarrow> jsstring option \<Rightarrow> imageFile \<Rightarrow> jsstring \<Rightarrow>
     event list \<times> (error + jsstring)"
where
  "generateFilteredImageLocalized newClient ai envApiKey originalImage filterPrompt =
     (case newClient envApiKey of
        Inl e \<Rightarrow> ([], Inl e)
      | Inr client \<Rightarrow>
          (case fileToPart originalImage of
             Inl e \<Rightarrow> ([ReadAsDataURL originalImage], Inl e)
           | Inr originalImagePart \<Rightarrow>
               (let prompt = filterPromptLocalized filterPrompt;
                    req = \<lparr>model = modelName,
                           contents = [ImagePart originalImagePart, TextPart prompt]\<rparr>
                in ([ReadAsDataURL originalImage, GenerateContent client req],
                    (case ai client req of
                       None \<Rightarrow> Inl ApiCallError
                     | Some r \<Rightarrow> handleApiResponse r Filter)))))"

definition generateAdjustedImageLocalized ::
  "clientConstructor \<Rightarrow> remote \<Rightarrow> jsstring option \<Rightarrow> imageFile \<Rightarrow> jsstring \<Rightarrow>
     event list \<times> (error + jsstring)"
where
  "generateAdjustedImageLocalized newClient ai envApiKey originalImage adjustmentPrompt =
     (case newClient envApiKey of
        Inl e \<Rightarrow> ([], Inl e)
      | Inr client \<Rightarrow>
          (case fileToPart originalImage of
             Inl e \<Rightarrow> ([ReadAsDataURL originalImage], Inl e)
           | Inr originalImagePart \<Rightarrow>
               (let prompt = adjustmentPromptLocalized adjustmentPrompt;
                    req = \<lparr>model = modelName,
                           contents = [ImagePart originalImagePart, TextPart prompt]\<rparr>
                in ([ReadAsDataURL originalImage, GenerateContent client req],
                    (case ai client req of
                       None \<Rightarrow> Inl ApiCallError
                     | Some r \<Rightarrow> handleApiResponse r Adjustment)))))"

section \<open>The browser's side of the encoding\<close>

text \<open>
  The data URL comes from the browser. For a file with a declared type, a successful
  \<^verbatim>\<open>readAsDataURL\<close> delivers \<^verbatim>\<open>data:<type>;base64,<text>\<close>, where the text is the base64
  encoding (RFC 4648, with padding) of the file's bytes. \<open>base64\<close> and \<open>unbase64\<close> are that
  encoding and its inverse; none of this is code of the repository, it is what
  \<open>fileToPart\<close> is run on.
\<close>

type_synonym byte = "8 word"

definition pad :: codeUnit where
  "pad = 0x3D"

definition base64Char :: "nat \<Rightarrow> codeUnit" where
  "base64Char i =
     of_nat (if i < 26 then 65 + i else if i < 52 then 71 + i else if i < 62 then i - 4
             else if i = 62 then 43 else 47)"

definition base64Value :: "codeUnit \<Rightarrow> nat option" where
  "base64Value c =
     (let n = unat c
      in if 65 \<le> n \<and> n \<le> 90 then Some (n - 65)
         else if 97 \<le> n \<and> n \<le> 122 then Some (n - 71)
         else if 48 \<le> n \<and> n \<le> 57 then Some (n + 4)
         else if n = 43 then Some 62
         else if n = 47 then Some 63
         else None)"

fun base64 :: "byte list \<Rightarrow> jsstring" where
  "base64 [] = []"
| "base64 [a] =
     (let x = unat a
      in [base64Char (x div 4), base64Char (x mod 4 * 16), pad, pad])"
| "base64 [a, b] =
     (let x = unat a; y = unat b
      in [base64Char (x div 4), base64Char (x mod 4 * 16 + y div 16),
          base64Char (y mod 16 * 4), pad])"
| "base64 (a # b # c # bs) =
     (let x = unat a; y = unat b; z = unat c
      in [base64Char (x div 4), base64Char (x mod 4 * 16 + y div 16),
          base64Char (y mod 16 * 4 + z div 64), base64Char (z mod 64)] @ base64 bs)"

fun unbase64 :: "jsstring \<Rightarrow> byte list option" where
  "unbase64 [] = Some []"
| "unbase64 (c1 # c2 # c3 # c4 # cs) =
     (case (base64Value c1, base64Value c2) of
        (Some s1, Some s2) \<Rightarrow>
          if c3 = pad \<and> c4 = pad \<and> cs = [] then Some [of_nat (s1 * 4 + s2 div 16)]
          else (case base64Value c3 of
                  None \<Rightarrow> None
                | Some s3 \<Rightarrow>
                    if c4 = pad \<and> cs = []
                    then Some [of_nat (s1 * 4 + s2 div 16), of_nat (s2 mod 16 * 16 + s3 div 4)]
                    else (case base64Value c4 of
                            None \<Rightarrow> None
                          | Some s4 \<Rightarrow>
                              map_option
                                (\<lambda>r. [of_nat (s1 * 4 + s2 div 16),
                                      of_nat (s2 mod 16 * 16 + s3 div 4),
                                      of_nat (s3 mod 4 * 64 + s4)] @ r)
                                (unbase64 cs)))
      | _ \<Rightarrow> None)"
| "unbase64 _ = None"

record browserFile =
  fileType :: jsstring
  fileBytes :: "byte list"

definition readAsDataURL :: "browserFile \<Rightarrow> imageFile" where
  "readAsDataURL f =
     OnLoad (lit ''data:'' @ fileType f @ lit '';base64,'' @ base64 (fileBytes f))"

section \<open>Sample responses\<close>

text \<open>
  Concrete parts and a response with one candidate, used where a theorem is run on an
  explicit input.
\<close>

definition pngPart :: part where
  "pngPart = \<lparr>partInlineData = Some \<lparr>blobMimeType = Some (lit ''image/png''),
       blobData = Some (lit ''QUJD'')\<rparr>, partText = None\<rparr>"

definition jpegPart :: part where
  "jpegPart = \<lparr>partInlineData = Some \<lparr>blobMimeType = Some (lit ''image/jpeg''),
       blobData = Some (lit ''REVG'')\<rparr>, partText = None\<rparr>"

definition textPart :: part where
  "textPart = \<lparr>partInlineData = None, partText = Some (lit ''Here you are'')\<rparr>"

definition respond :: "promptFeedback option \<Rightarrow> part list \<Rightarrow> jsstring option \<Rightarrow> jsstring option \<Rightarrow> response" where
  "respond fb ps fr t =
     \<lparr>promptFeedback = fb,
      candidates = Some [\<lparr>content = Some \<lparr>parts = Some ps\<rparr>, finishReason = fr\<rparr>],
      text' = t\<rparr>"

text \<open>
  A constructor that throws on an absent key and accepts every string, a remote model
  that answers every call with one image, and a file that reads as a PNG data URL.
\<close>

definition sampleConstructor :: clientConstructor where
  "sampleConstructor k =
     (case k of None \<Rightarrow> Inl (MissingCredentialError apiKeyMissing) | Some s \<Rightarrow> Inr s)"

definition sampleRemote :: remote where
  "sampleRemote k q = Some (respond None [pngPart] (Some (lit ''STOP'')) None)"

definition pngImage :: imageFile where
  "pngImage = OnLoad (lit ''data:image/png;base64,QUJD'')"

section \<open>Lemmas on splitting and matching\<close>

lemma splitStr_nonempty: "splitStr sep s \<noteq> []"
  by (induction s) (auto simp: Let_def)

lemma splitStr_no_sep: "sep \<notin> set s \<Longrightarrow> splitStr sep s = [s]"
  by (induction s) (auto simp: Let_def)

lemma splitStr_at_sep:
  "sep \<notin> set a \<Longrightarrow> splitStr sep (a @ sep # r) = a # splitStr sep r"
  by (induction a) (auto simp: Let_def)

lemma splitStr_short_iff: "length (splitStr sep s) < 2 \<longleftrightarrow> sep \<notin> set s"
proof
  assume short: "length (splitStr sep s) < 2"
  show "sep \<notin> set s"
  proof
    assume "sep \<in> set s"
    then obtain a r where "s = a @ sep # r" and "sep \<notin> set a"
      by (auto dest: split_list_first)
    then have "splitStr sep s = a # splitStr sep r"
      by (simp add: splitStr_at_sep)
    with short show False
      using splitStr_nonempty [of sep r] by (cases "splitStr sep r") auto
  qed
next
  assume "sep \<notin> set s"
  then show "length (splitStr sep s) < 2"
    by (simp add: splitStr_no_sep)
qed

lemma splitStr_hd: "hd (splitStr sep s) = takeWhile (\<lambda>c. c \<noteq> sep) s"
  by (induction s) (auto simp: Let_def)

lemma lazyUntilSemicolon_Some:
  "lazyUntilSemicolon s = Some g \<Longrightarrow>
     \<exists>r. s = g @ semicolon # r \<and> semicolon \<notin> set g \<and> \<not> list_ex isLineTerminator g"
proof (induction s arbitrary: g)
  case Nil
  then show ?case by simp
next
  case (Cons c cs)
  show ?case
  proof (cases "c = semicolon")
    case True
    with Cons.prems show ?thesis by auto
  next
    case False
    with Cons.prems obtain g' where g': "lazyUntilSemicolon cs = Some g'" "g = c # g'"
      and nl: "\<not> isLineTerminator c"
      by (auto split: if_splits)
    from Cons.IH [OF g'(1)] obtain r where
      "cs = g' @ semicolon # r" "semicolon \<notin> set g'" "\<not> list_ex isLineTerminator g'"
      by blast
    with g' nl False show ?thesis by auto
  qed
qed

lemma lazyUntilSemicolon_plain:
  "semicolon \<notin> set g \<Longrightarrow> \<not> list_ex isLineTerminator g \<Longrightarrow>
     lazyUntilSemicolon (g @ semicolon # r) = Some g"
  by (induction g) auto

lemma matchMime_Some:
  "matchMime s = Some g \<Longrightarrow> \<exists>a r. s = a @ colon # g @ semicolon # r"
proof (induction s)
  case Nil
  then show ?case by simp
next
  case (Cons c cs)
  show ?case
  proof (cases "c = colon \<and> lazyUntilSemicolon cs = Some g")
    case True
    then obtain r where "cs = g @ semicolon # r"
      by (auto dest: lazyUntilSemicolon_Some)
    with True have "c # cs = [] @ colon # g @ semicolon # r" by simp
    then show ?thesis by blast
  next
    case False
    with Cons.prems have "matchMime cs = Some g"
      by (auto split: if_splits option.splits)
    from Cons.IH [OF this] obtain a r where "cs = a @ colon # g @ semicolon # r"
      by blast
    then have "c # cs = (c # a) @ colon # g @ semicolon # r" by simp
    then show ?thesis by blast
  qed
qed

lemma matchMime_no_colon: "colon \<notin> set s \<Longrightarrow> matchMime s = None"
  by (induction s) auto

lemma matchMime_first_colon:
  "colon \<notin> set a \<Longrightarrow> semicolon \<notin> set g \<Longrightarrow> \<not> list_ex isLineTerminator g \<Longrightarrow>
     matchMime (a @ colon # g @ semicolon # r) = Some g"
  by (induction a) (auto simp: lazyUntilSemicolon_plain)

section \<open>Lemmas on the encoder and the operations\<close>

lemma fileToPart_no_comma:
  "comma \<notin> set u \<Longrightarrow> fileToPart (OnLoad u) = Inl (DecodingError invalidDataUrl)"
  by (simp add: fileToPart_def splitStr_no_sep)

lemma splitStr_nth0: "splitStr sep s ! 0 = takeWhile (\<lambda>c. c \<noteq> sep) s"
  using splitStr_hd [of sep s] splitStr_nonempty [of sep s]
  by (simp add: hd_conv_nth)

lemma fileToPart_with_comma:
  "comma \<in> set u \<Longrightarrow>
   fileToPart (OnLoad u) =
     (case matchMime (takeWhile (\<lambda>c. c \<noteq> comma) u) of
        None \<Rightarrow> Inl (DecodingError noMimeType)
      | Some g \<Rightarrow> if g = [] then Inl (DecodingError noMimeType)
                  else Inr \<lparr>mimeType = g, data = splitStr comma u ! 1\<rparr>)"
  using splitStr_short_iff [of comma u]
  by (simp add: fileToPart_def Let_def splitStr_nth0)

lemma fileToPart_no_pattern:
  assumes "\<not> (\<exists>a m b. takeWhile (\<lambda>c. c \<noteq> comma) u = a @ colon # m @ semicolon # b \<and> m \<noteq> [])"
      and "comma \<in> set u"
  shows "fileToPart (OnLoad u) = Inl (DecodingError noMimeType)"
proof (cases "matchMime (takeWhile (\<lambda>c. c \<noteq> comma) u)")
  case None
  with assms(2) show ?thesis by (simp add: fileToPart_with_comma)
next
  case (Some g)
  from matchMime_Some [OF Some] assms(1) have "g = []" by blast
  with Some assms(2) show ?thesis by (simp add: fileToPart_with_comma)
qed

lemma fileToPart_decoding:
  assumes "comma \<notin> set u \<or>
     \<not> (\<exists>a m b. takeWhile (\<lambda>c. c \<noteq> comma) u = a @ colon # m @ semicolon # b \<and> m \<noteq> [])"
  shows "fileToPart (OnLoad u) =
     Inl (DecodingError (if comma \<in> set u then noMimeType else invalidDataUrl))"
  using assms fileToPart_no_comma [of u] fileToPart_no_pattern [of u] by auto

lemma data_prefix_no_comma:
  "comma \<notin> set m \<Longrightarrow> comma \<notin> set (lit ''data:'' @ m @ lit '';base64'')"
  by (simp add: lit_def comma_def)

lemma data_prefix_match:
  assumes "m \<noteq> []" "semicolon \<notin> set m" "\<not> list_ex isLineTerminator m"
  shows "matchMime (lit ''data:'' @ m @ lit '';base64'') = Some m"
proof -
  have "lit ''data:'' @ m @ lit '';base64'' = lit ''data'' @ colon # m @ semicolon # lit ''base64''"
    by (simp add: lit_def colon_def semicolon_def)
  moreover have "colon \<notin> set (lit ''data'')"
    by (simp add: lit_def colon_def)
  then have "matchMime (lit ''data'' @ colon # m @ semicolon # lit ''base64'') = Some m"
    using assms(2,3) by (rule matchMime_first_colon)
  ultimately show ?thesis by simp
qed

lemma truthy_simps:
  "truthy None = False" "truthy (Some s) = (s \<noteq> [])"
  by (simp_all add: truthy_def)

lemma interpolate_Some: "interpolate (Some s) = s"
  by (simp add: interpolate_def)

lemma edit_without_image:
  "fileToPart f = Inl e \<Longrightarrow>
   generateEditedImage ai apiKey f userPrompt hotspot =
     (if truthy apiKey then ([ReadAsDataURL f], Inl e)
      else ([], Inl (MissingCredentialError apiKeyMissing)))"
  by (simp add: generateEditedImage_def)

lemma filter_without_image:
  "fileToPart f = Inl e \<Longrightarrow>
   generateFilteredImage ai apiKey f filterPrompt =
     (if truthy apiKey then ([ReadAsDataURL f], Inl e)
      else ([], Inl (MissingCredentialError apiKeyMissing)))"
  by (simp add: generateFilteredImage_def)

lemma adjust_without_image:
  "fileToPart f = Inl e \<Longrightarrow>
   generateAdjustedImage ai apiKey f adjustmentPrompt =
     (if truthy apiKey then ([ReadAsDataURL f], Inl e)
      else ([], Inl (MissingCredentialError apiKeyMissing)))"
  by (simp add: generateAdjustedImage_def)

lemma fileToPart_data_url:
  assumes "m \<noteq> []" and "comma \<notin> set m" and "semicolon \<notin> set m"
      and "\<not> list_ex isLineTerminator m" and "comma \<notin> set d"
  shows "fileToPart (OnLoad (lit ''data:'' @ m @ lit '';base64,'' @ d)) =
           Inr \<lparr>mimeType = m, data = d\<rparr>"
proof -
  let ?a = "lit ''data:'' @ m @ lit '';base64''"
  have u: "lit ''data:'' @ m @ lit '';base64,'' @ d = ?a @ comma # d"
    by (simp add: lit_def comma_def)
  have "comma \<notin> set ?a"
    using assms(2) by (rule data_prefix_no_comma)
  then have "splitStr comma (?a @ comma # d) = ?a # splitStr comma d"
    by (rule splitStr_at_sep)
  then have sp: "splitStr comma (?a @ comma # d) = [?a, d]"
    using assms(5) by (simp add: splitStr_no_sep)
  have mm: "matchMime ?a = Some m"
    using assms(1,3,4) by (rule data_prefix_match)
  have "fileToPart (OnLoad (?a @ comma # d)) = Inr \<lparr>mimeType = m, data = d\<rparr>"
    unfolding fileToPart_def imageFile.case sp Let_def
    using assms(1) by (simp add: mm)
  then show ?thesis
    by (simp only: u)
qed

lemma messages_differ: "noMimeType \<noteq> invalidDataUrl"
  by (simp add: noMimeType_def invalidDataUrl_def lit_def)

lemma pngFile: "fileToPart (OnLoad (lit ''data:image/png;base64,QUJD'')) =
    Inr \<lparr>mimeType = lit ''image/png'', data = lit ''QUJD''\<rparr>"
  by (simp add: fileToPart_def lit_def comma_def colon_def semicolon_def isLineTerminator_def)

lemma edit_with_image:
  "truthy apiKey \<Longrightarrow> fileToPart f = Inr p \<Longrightarrow>
   networkCalls (fst (generateEditedImage ai apiKey f userPrompt hotspot)) =
     [(interpolate apiKey,
       \<lparr>model = modelName, contents = [ImagePart p, TextPart (editPrompt userPrompt hotspot)]\<rparr>)]"
  by (simp add: generateEditedImage_def Let_def)

lemma filter_with_image:
  "truthy apiKey \<Longrightarrow> fileToPart f = Inr p \<Longrightarrow>
   networkCalls (fst (generateFilteredImage ai apiKey f filterPrompt)) =
     [(interpolate apiKey,
       \<lparr>model = modelName, contents = [ImagePart p, TextPart (filterPromptText filterPrompt)]\<rparr>)]"
  by (simp add: generateFilteredImage_def Let_def)

lemma adjust_with_image:
  "truthy apiKey \<Longrightarrow> fileToPart f = Inr p \<Longrightarrow>
   networkCalls (fst (generateAdjustedImage ai apiKey f adjustmentPrompt)) =
     [(interpolate apiKey,
       \<lparr>model = modelName,
        contents = [ImagePart p, TextPart (adjustmentPromptText adjustmentPrompt)]\<rparr>)]"
  by (simp add: generateAdjustedImage_def Let_def)

section \<open>Lemmas on base64\<close>

lemma unat_base64Char:
  "i < 64 \<Longrightarrow> unat (base64Char i) =
     (if i < 26 then 65 + i else if i < 52 then 71 + i else if i < 62 then i - 4
      else if i = 62 then 43 else 47)"
  unfolding base64Char_def
  by (simp add: unat_of_nat)

lemma base64Value_Char: "i < 64 \<Longrightarrow> base64Value (base64Char i) = Some i"
  by (auto simp: base64Value_def unat_base64Char Let_def)

lemma base64Char_not_pad: "i < 64 \<Longrightarrow> base64Char i \<noteq> pad"
proof
  assume "i < 64" and "base64Char i = pad"
  then have "unat (base64Char i) = 61"
    by (simp add: pad_def)
  with \<open>i < 64\<close> show False
    by (auto simp: unat_base64Char split: if_splits)
qed

lemma byte_bound: "unat (a :: byte) < 256"
  using unsigned_less [of a] by simp

lemma sextets:
  fixes x y z :: nat
  assumes "x < 256" "y < 256" "z < 256"
  shows "x div 4 < 64" "x mod 4 * 16 < 64" "x mod 4 * 16 + y div 16 < 64"
    "y mod 16 * 4 < 64" "y mod 16 * 4 + z div 64 < 64" "z mod 64 < 64"
  using assms by simp_all

lemma octets:
  fixes x y z :: nat
  assumes "x < 256" "y < 256" "z < 256"
  shows "x div 4 * 4 + (x mod 4 * 16) div 16 = x"
    "x div 4 * 4 + (x mod 4 * 16 + y div 16) div 16 = x"
    "(x mod 4 * 16 + y div 16) mod 16 * 16 + (y mod 16 * 4) div 4 = y"
    "(x mod 4 * 16 + y div 16) mod 16 * 16 + (y mod 16 * 4 + z div 64) div 4 = y"
    "(y mod 16 * 4 + z div 64) mod 4 * 64 + z mod 64 = z"
  using assms by simp_all

lemma unbase64_base64: "unbase64 (base64 bs) = Some bs"
proof (induction bs rule: base64.induct)
  case 1
  show ?case by simp
next
  case (2 a)
  show ?case
    using sextets(1,2) [OF byte_bound [of a] byte_bound [of a] byte_bound [of a]]
      octets(1) [OF byte_bound [of a] byte_bound [of a] byte_bound [of a]]
    by (simp add: Let_def base64Value_Char)
next
  case (3 a b)
  show ?case
    using sextets(1,3,4) [OF byte_bound [of a] byte_bound [of b] byte_bound [of b]]
      octets(2,3) [OF byte_bound [of a] byte_bound [of b] byte_bound [of b]]
    by (simp add: Let_def base64Value_Char base64Char_not_pad)
next
  case (4 a b c bs)
  show ?case
    using sextets(1,3,5,6) [OF byte_bound [of a] byte_bound [of b] byte_bound [of c]]
      octets(2,4,5) [OF byte_bound [of a] byte_bound [of b] byte_bound [of c]] "4.IH"
    by (simp add: Let_def base64Value_Char base64Char_not_pad)
qed

lemma base64_alphabet: "list_all (\<lambda>c. c = pad \<or> base64Value c \<noteq> None) (base64 bs)"
proof (induction bs rule: base64.induct)
  case 1
  show ?case by simp
next
  case (2 a)
  show ?case
    using sextets(1,2) [OF byte_bound [of a] byte_bound [of a] byte_bound [of a]]
    by (simp add: Let_def base64Value_Char)
next
  case (3 a b)
  show ?case
    using sextets(1,3,4) [OF byte_bound [of a] byte_bound [of b] byte_bound [of b]]
    by (simp add: Let_def base64Value_Char)
next
  case (4 a b c bs)
  show ?case
    using sextets(1,3,5,6) [OF byte_bound [of a] byte_bound [of b] byte_bound [of c]] "4.IH"
    by (simp add: Let_def base64Value_Char)
qed

lemma base64_no_comma: "comma \<notin> set (base64 bs)"
proof
  assume "comma \<in> set (base64 bs)"
  with base64_alphabet [of bs] have "comma = pad \<or> base64Value comma \<noteq> None"
    by (simp add: list_all_iff)
  then show False
    by (simp add: comma_def pad_def base64Value_def)
qed

section \<open>Lemmas on the response interpreter\<close>

lemma find_inline_first:
  "find (\<lambda>p. partInlineData p \<noteq> None) ps \<bind> partInlineData =
     first (List.map_filter partInlineData ps)"
  by (induction ps) (auto simp: first_def List.map_filter_simps split: option.splits)

lemma image_part_first:
  "imagePartFromResponse r \<bind> partInlineData = first (inlineParts r)"
proof (cases "candidates r \<bind> first \<bind> content \<bind> parts")
  case None
  then show ?thesis
    by (simp add: imagePartFromResponse_def inlineParts_def first_def)
next
  case (Some ps)
  show ?thesis
    unfolding imagePartFromResponse_def inlineParts_def
    by (simp only: Some Option.bind.bind_lunit option.case find_inline_first)
qed

lemma handleApiResponse_blocked:
  "truthy (promptFeedback r \<bind> blockReason) \<Longrightarrow>
   handleApiResponse r c =
     Inl (BlockedRequestError
       (blockedMessage (promptFeedback r \<bind> blockReason)
          (promptFeedback r \<bind> blockReasonMessage)))"
  by (simp add: handleApiResponse_def)

lemma handleApiResponse_image:
  "\<not> truthy (promptFeedback r \<bind> blockReason) \<Longrightarrow> inlineParts r = b # bs \<Longrightarrow>
   handleApiResponse r c = Inr (dataUri b)"
  by (simp add: handleApiResponse_def image_part_first first_def)

lemma handleApiResponse_no_image:
  "\<not> truthy (promptFeedback r \<bind> blockReason) \<Longrightarrow> inlineParts r = [] \<Longrightarrow>
   handleApiResponse r c =
     (if truthy (finishReasonOf r) \<and> finishReasonOf r \<noteq> Some (lit ''STOP'')
      then Inl (GenerationStoppedError
             (stoppedMessage (translatedContext c) (finishReasonOf r)))
      else Inl (NoImageReturnedError
             (noImagePrefix (translatedContext c) @
              (if truthy (map_option trim (text' r))
               then textReply (map_option trim (text' r))
               else genericExplanation))))"
  by (simp add: handleApiResponse_def image_part_first first_def Let_def)

lemma sublist_skip: "sublist xs ys \<Longrightarrow> sublist xs (zs @ ys)"
  unfolding sublist_def by (metis append.assoc)

lemma respond_simps:
  "promptFeedback (respond fb ps fr t) = fb"
  "inlineParts (respond fb ps fr t) = List.map_filter partInlineData ps"
  "finishReasonOf (respond fb ps fr t) = fr"
  "text' (respond fb ps fr t) = t"
  by (simp_all add: respond_def inlineParts_def finishReasonOf_def first_def)

lemma lit_nonempty: "lit (c # cs) \<noteq> []"
  by (simp add: lit_def)



section \<open>Lemmas on the second copy\<close>

lemma edit_localized_rejected:
  "newClient k = Inl e \<Longrightarrow>
   generateEditedImageLocalized newClient ai k f userPrompt hotspot = ([], Inl e)"
  by (simp add: generateEditedImageLocalized_def)

lemma filter_localized_rejected:
  "newClient k = Inl e \<Longrightarrow>
   generateFilteredImageLocalized newClient ai k f filterPrompt = ([], Inl e)"
  by (simp add: generateFilteredImageLocalized_def)

lemma adjust_localized_rejected:
  "newClient k = Inl e \<Longrightarrow>
   generateAdjustedImageLocalized newClient ai k f adjustmentPrompt = ([], Inl e)"
  by (simp add: generateAdjustedImageLocalized_def)

lemma edit_localized_accepted:
  "newClient k = Inr client \<Longrightarrow>
   take (Suc 0) (fst (generateEditedImageLocalized newClient ai k f userPrompt hotspot)) =
     [ReadAsDataURL f]"
  by (simp add: generateEditedImageLocalized_def Let_def split: sum.splits)

lemma filter_localized_accepted:
  "newClient k = Inr client \<Longrightarrow>
   take (Suc 0) (fst (generateFilteredImageLocalized newClient ai k f filterPrompt)) =
     [ReadAsDataURL f]"
  by (simp add: generateFilteredImageLocalized_def Let_def split: sum.splits)

lemma adjust_localized_accepted:
  "newClient k = Inr client \<Longrightarrow>
   take (Suc 0) (fst (generateAdjustedImageLocalized newClient ai k f adjustmentPrompt)) =
     [ReadAsDataURL f]"
  by (simp add: generateAdjustedImageLocalized_def Let_def split: sum.splits)

lemma pngImage_part:
  "fileToPart pngImage = Inr \<lparr>mimeType = lit ''image/png'', data = lit ''QUJD''\<rparr>"
  unfolding pngImage_def by (rule pngFile)

lemma sampleRemote_answer:
  "handleApiResponse (respond None [pngPart] (Some (lit ''STOP'')) None) c =
     Inr (lit ''data:image/png;base64,QUJD'')"
proof -
  have "inlineParts (respond None [pngPart] (Some (lit ''STOP'')) None) =
      [\<lparr>blobMimeType = Some (lit ''image/png''), blobData = Some (lit ''QUJD'')\<rparr>]"
    by (simp add: respond_simps List.map_filter_simps pngPart_def)
  moreover have "\<not> truthy (promptFeedback (respond None [pngPart] (Some (lit ''STOP'')) None)
      \<bind> blockReason)"
    by (simp add: respond_simps truthy_simps)
  ultimately have "handleApiResponse (respond None [pngPart] (Some (lit ''STOP'')) None) c =
      Inr (dataUri \<lparr>blobMimeType = Some (lit ''image/png''), blobData = Some (lit ''QUJD'')\<rparr>)"
    by (rule handleApiResponse_image [rotated])
  then show ?thesis
    by (simp add: dataUri_def interpolate_Some lit_def)
qed

section \<open>The credential check\<close>

text \<open>
  Claim C1, as amended. Each of the three operations of \<^verbatim>\<open>services/geminiService.ts\<close>,
  given a credential that is absent or the empty string, fails with the
  missing-credential error and has had no effect by then: the list of effects is empty,
  so the file was not read and no network call was made. The three operations of the
  second copy make no test of their own. When the constructor of the client throws on
  the credential, they fail with the constructor's error and without any effect; when it
  returns a client, the first effect is the read of the file.
\<close>

theorem missing_credential:
  assumes "apiKey = None \<or> apiKey = Some []"
  shows "generateEditedImage ai apiKey originalImage userPrompt hotspot =
           ([], Inl (MissingCredentialError apiKeyMissing)) \<and>
         generateFilteredImage ai apiKey originalImage filterPrompt =
           ([], Inl (MissingCredentialError apiKeyMissing)) \<and>
         generateAdjustedImage ai apiKey originalImage adjustmentPrompt =
           ([], Inl (MissingCredentialError apiKeyMissing)) \<and>
         (\<forall>e. newClient apiKey = Inl e \<longrightarrow>
            generateEditedImageLocalized newClient ai apiKey originalImage userPrompt hotspot =
              ([], Inl e) \<and>
            generateFilteredImageLocalized newClient ai apiKey originalImage filterPrompt =
              ([], Inl e) \<and>
            generateAdjustedImageLocalized newClient ai apiKey originalImage adjustmentPrompt =
              ([], Inl e)) \<and>
         (\<forall>client. newClient apiKey = Inr client \<longrightarrow>
            take (Suc 0) (fst (generateEditedImageLocalized newClient ai apiKey originalImage
              userPrompt hotspot)) = [ReadAsDataURL originalImage] \<and>
            take (Suc 0) (fst (generateFilteredImageLocalized newClient ai apiKey originalImage
              filterPrompt)) = [ReadAsDataURL originalImage] \<and>
            take (Suc 0) (fst (generateAdjustedImageLocalized newClient ai apiKey originalImage
              adjustmentPrompt)) = [ReadAsDataURL originalImage])"
proof -
  have "generateEditedImage ai apiKey originalImage userPrompt hotspot =
           ([], Inl (MissingCredentialError apiKeyMissing)) \<and>
         generateFilteredImage ai apiKey originalImage filterPrompt =
           ([], Inl (MissingCredentialError apiKeyMissing)) \<and>
         generateAdjustedImage ai apiKey originalImage adjustmentPrompt =
           ([], Inl (MissingCredentialError apiKeyMissing))"
    using assms
    by (auto simp: generateEditedImage_def generateFilteredImage_def
        generateAdjustedImage_def truthy_simps)
  then show ?thesis
    by (simp add: edit_localized_rejected filter_localized_rejected adjust_localized_rejected
        edit_localized_accepted filter_localized_accepted adjust_localized_accepted)
qed

theorem missing_credential_witness:
  "generateEditedImage sampleRemote (Some []) pngImage (lit ''remove the lamp'') (Hotspot 12 34) =
     ([], Inl (MissingCredentialError apiKeyMissing)) \<and>
   generateFilteredImage sampleRemote None pngImage (lit ''sepia'') =
     ([], Inl (MissingCredentialError apiKeyMissing)) \<and>
   generateAdjustedImage sampleRemote (Some []) OnError (lit ''brighter'') =
     ([], Inl (MissingCredentialError apiKeyMissing)) \<and>
   generateEditedImageLocalized sampleConstructor sampleRemote None pngImage
       (lit ''remove the lamp'') (Hotspot 12 34) =
     ([], Inl (MissingCredentialError apiKeyMissing)) \<and>
   take (Suc 0) (fst (generateFilteredImageLocalized sampleConstructor sampleRemote (Some [])
       pngImage (lit ''sepia''))) = [ReadAsDataURL pngImage]"
proof -
  have n: "sampleConstructor None = Inl (MissingCredentialError apiKeyMissing)"
    and s: "sampleConstructor (Some []) = Inr []"
    by (simp_all add: sampleConstructor_def)
  from missing_credential [of "Some []" sampleRemote pngImage "lit ''remove the lamp''"
      "Hotspot 12 34" "lit ''sepia''" "lit ''brighter''" sampleConstructor] s
  have 1: "generateEditedImage sampleRemote (Some []) pngImage (lit ''remove the lamp'')
        (Hotspot 12 34) = ([], Inl (MissingCredentialError apiKeyMissing))"
    and 5: "take (Suc 0) (fst (generateFilteredImageLocalized sampleConstructor sampleRemote
        (Some []) pngImage (lit ''sepia''))) = [ReadAsDataURL pngImage]"
    by simp_all
  from missing_credential [of None sampleRemote pngImage "lit ''remove the lamp''"
      "Hotspot 12 34" "lit ''sepia''" "lit ''brighter''" sampleConstructor] n
  have 2: "generateFilteredImage sampleRemote None pngImage (lit ''sepia'') =
        ([], Inl (MissingCredentialError apiKeyMissing))"
    and 4: "generateEditedImageLocalized sampleConstructor sampleRemote None pngImage
        (lit ''remove the lamp'') (Hotspot 12 34) =
        ([], Inl (MissingCredentialError apiKeyMissing))"
    by simp_all
  from missing_credential [of "Some []" sampleRemote OnError "lit ''remove the lamp''"
      "Hotspot 12 34" "lit ''sepia''" "lit ''brighter''" sampleConstructor]
  have 3: "generateAdjustedImage sampleRemote (Some []) OnError (lit ''brighter'') =
        ([], Inl (MissingCredentialError apiKeyMissing))"
    by simp
  from 1 2 3 4 5 show ?thesis by blast
qed

text \<open>
  Claim C1 as stated covers the second copy too. With a constructor that accepts the
  empty string, its edit operation on an empty credential reads the file, makes the
  network call and returns the image: it does not fail, and nothing stops it before the
  file is encoded.
\<close>

theorem localized_empty_key_counterexample:
  "generateEditedImageLocalized sampleConstructor sampleRemote (Some []) pngImage
       (lit ''remove the lamp'') (Hotspot 12 34) =
     ([ReadAsDataURL pngImage,
       GenerateContent []
         \<lparr>model = modelName,
          contents = [ImagePart \<lparr>mimeType = lit ''image/png'', data = lit ''QUJD''\<rparr>,
            TextPart (editPromptLocalized (lit ''remove the lamp'') (Hotspot 12 34))]\<rparr>],
      Inr (lit ''data:image/png;base64,QUJD''))"
  by (simp add: generateEditedImageLocalized_def sampleConstructor_def pngImage_part
      sampleRemote_def sampleRemote_answer)

section \<open>The order of the interpreter's checks\<close>

text \<open>
  Claim C2. A response whose prompt feedback carries a block reason (a non-empty name, as
  every value of the enumeration is) is answered with the blocked-request error, whatever
  else the response holds. The message is the fixed opening, the reason, a full stop and
  a space, and then the block message when there is one. The runs below are on responses
  that also carry an image part, one with a block message and one without.
\<close>

theorem blocked_prompt_first:
  assumes "promptFeedback r = Some fb" and "blockReason fb = Some reason" and "reason \<noteq> []"
  shows "handleApiResponse r c =
           Inl (BlockedRequestError (blockedMessage (Some reason) (blockReasonMessage fb))) \<and>
         sublist reason (blockedMessage (Some reason) (blockReasonMessage fb)) \<and>
         sublist (orEmpty (blockReasonMessage fb))
           (blockedMessage (Some reason) (blockReasonMessage fb)) \<and>
         (\<forall>msg. blockReasonMessage fb = Some msg \<longrightarrow>
            handleApiResponse r c =
              Inl (BlockedRequestError
                (lit ''A solicita'' @ [0xE7, 0xE3] @ lit ''o foi bloqueada. Motivo: '' @
                 reason @ lit ''. '' @ msg)) \<and>
            sublist msg (blockedMessage (Some reason) (blockReasonMessage fb))) \<and>
         (blockReasonMessage fb = None \<longrightarrow>
            handleApiResponse r c =
              Inl (BlockedRequestError
                (lit ''A solicita'' @ [0xE7, 0xE3] @ lit ''o foi bloqueada. Motivo: '' @
                 reason @ lit ''. '')))"
proof -
  have "truthy (promptFeedback r \<bind> blockReason)"
    using assms by (simp add: truthy_simps)
  then have h: "handleApiResponse r c =
      Inl (BlockedRequestError (blockedMessage (Some reason) (blockReasonMessage fb)))"
    using assms by (simp add: handleApiResponse_blocked)
  have 1: "sublist reason (blockedMessage (Some reason) (blockReasonMessage fb))"
    unfolding blockedMessage_def interpolate_Some
    by (metis append.assoc sublist_appendI)
  have 2: "sublist (orEmpty (blockReasonMessage fb))
      (blockedMessage (Some reason) (blockReasonMessage fb))"
    unfolding blockedMessage_def
    by (metis append.assoc append_Nil2 sublist_appendI)
  have e: "orEmpty (Some msg) = msg" for msg
    by (simp add: orEmpty_def truthy_simps interpolate_Some)
  have 3: "blockedMessage (Some reason) (Some msg) =
      lit ''A solicita'' @ [0xE7, 0xE3] @ lit ''o foi bloqueada. Motivo: '' @
      reason @ lit ''. '' @ msg" for msg
    by (simp add: blockedMessage_def interpolate_Some e)
  have 4: "blockedMessage (Some reason) None =
      lit ''A solicita'' @ [0xE7, 0xE3] @ lit ''o foi bloqueada. Motivo: '' @
      reason @ lit ''. ''"
    by (simp add: blockedMessage_def interpolate_Some orEmpty_def truthy_simps)
  have 5: "sublist msg (blockedMessage (Some reason) (Some msg))" for msg
    unfolding 3
    by (rule sublist_skip, rule sublist_skip, rule sublist_skip, rule sublist_skip,
        rule sublist_skip, rule sublist_order.order.refl)
  from h 1 2 show ?thesis
    using 3 4 5 by auto
qed

theorem blocked_prompt_first_witness:
  "inlineParts (respond (Some \<lparr>blockReason = Some (lit ''SAFETY''),
       blockReasonMessage = Some (lit ''Unsafe prompt.'')\<rparr>)
       [pngPart] (Some (lit ''STOP'')) None) \<noteq> [] \<and>
   handleApiResponse
     (respond (Some \<lparr>blockReason = Some (lit ''SAFETY''),
        blockReasonMessage = Some (lit ''Unsafe prompt.'')\<rparr>)
       [pngPart] (Some (lit ''STOP'')) None) Edit =
     Inl (BlockedRequestError
       (lit ''A solicita'' @ [0xE7, 0xE3] @
        lit ''o foi bloqueada. Motivo: SAFETY. Unsafe prompt.'')) \<and>
   handleApiResponse
     (respond (Some \<lparr>blockReason = Some (lit ''OTHER''), blockReasonMessage = None\<rparr>)
       [pngPart] (Some (lit ''STOP'')) None) Edit =
     Inl (BlockedRequestError
       (lit ''A solicita'' @ [0xE7, 0xE3] @ lit ''o foi bloqueada. Motivo: OTHER. ''))"
proof -
  have a: "lit ''A solicita'' @ [0xE7, 0xE3] @ lit ''o foi bloqueada. Motivo: '' @
      lit ''SAFETY'' @ lit ''. '' @ lit ''Unsafe prompt.'' =
      lit ''A solicita'' @ [0xE7, 0xE3] @
      lit ''o foi bloqueada. Motivo: SAFETY. Unsafe prompt.''"
    by (simp add: lit_def)
  have b: "lit ''A solicita'' @ [0xE7, 0xE3] @ lit ''o foi bloqueada. Motivo: '' @
      lit ''OTHER'' @ lit ''. '' =
      lit ''A solicita'' @ [0xE7, 0xE3] @ lit ''o foi bloqueada. Motivo: OTHER. ''"
    by (simp add: lit_def)
  let ?fb1 = "\<lparr>blockReason = Some (lit ''SAFETY''),
      blockReasonMessage = Some (lit ''Unsafe prompt.'')\<rparr>"
  let ?fb2 = "\<lparr>blockReason = Some (lit ''OTHER''), blockReasonMessage = None\<rparr>"
  have p1: "promptFeedback (respond (Some ?fb1) [pngPart] (Some (lit ''STOP'')) None) =
      Some ?fb1"
    and p2: "promptFeedback (respond (Some ?fb2) [pngPart] (Some (lit ''STOP'')) None) =
      Some ?fb2"
    by (simp_all add: respond_simps)
  have q1: "blockReason ?fb1 = Some (lit ''SAFETY'')" "lit ''SAFETY'' \<noteq> []"
    and q2: "blockReason ?fb2 = Some (lit ''OTHER'')" "lit ''OTHER'' \<noteq> []"
    by (simp_all add: lit_nonempty)
  have m1: "blockReasonMessage ?fb1 = Some (lit ''Unsafe prompt.'')"
    and m2: "blockReasonMessage ?fb2 = None"
    by simp_all
  from blocked_prompt_first [OF p1 q1, of Edit] m1
  have 1: "handleApiResponse (respond (Some ?fb1) [pngPart] (Some (lit ''STOP'')) None) Edit =
     Inl (BlockedRequestError
       (lit ''A solicita'' @ [0xE7, 0xE3] @ lit ''o foi bloqueada. Motivo: '' @
        lit ''SAFETY'' @ lit ''. '' @ lit ''Unsafe prompt.''))"
    by blast
  from blocked_prompt_first [OF p2 q2, of Edit] m2
  have 2: "handleApiResponse (respond (Some ?fb2) [pngPart] (Some (lit ''STOP'')) None) Edit =
     Inl (BlockedRequestError
       (lit ''A solicita'' @ [0xE7, 0xE3] @ lit ''o foi bloqueada. Motivo: '' @
        lit ''OTHER'' @ lit ''. ''))"
    by blast
  have 3: "inlineParts (respond (Some \<lparr>blockReason = Some (lit ''SAFETY''),
       blockReasonMessage = Some (lit ''Unsafe prompt.'')\<rparr>)
       [pngPart] (Some (lit ''STOP'')) None) \<noteq> []"
    by (simp add: respond_simps List.map_filter_simps pngPart_def)
  from 1 [unfolded a] 2 [unfolded b] 3 show ?thesis by blast
qed

text \<open>
  Claim C3, as amended. With no block reason, when the first candidate has parts with
  inline data, the interpreter returns the data URI of the first of them in part order,
  built from that part's MIME type and data, whatever the finish reason is.
\<close>

theorem first_image_returned:
  assumes "\<not> truthy (promptFeedback r \<bind> blockReason)"
      and "inlineParts r = b # bs"
      and "blobMimeType b = Some m" and "blobData b = Some d"
  shows "handleApiResponse r c = Inr (lit ''data:'' @ m @ lit '';base64,'' @ d)"
  using assms by (simp add: handleApiResponse_image dataUri_def interpolate_Some)

theorem first_image_returned_witness:
  "handleApiResponse (respond None [textPart, pngPart, jpegPart] (Some (lit ''MAX_TOKENS'')) None)
     Filter = Inr (lit ''data:'' @ lit ''image/png'' @ lit '';base64,'' @ lit ''QUJD'')"
  using first_image_returned [of
      "respond None [textPart, pngPart, jpegPart] (Some (lit ''MAX_TOKENS'')) None"
      "\<lparr>blobMimeType = Some (lit ''image/png''), blobData = Some (lit ''QUJD'')\<rparr>"
      "[\<lparr>blobMimeType = Some (lit ''image/jpeg''), blobData = Some (lit ''REVG'')\<rparr>]"
      "lit ''image/png''" "lit ''QUJD''" Filter]
  by (simp add: respond_simps truthy_simps List.map_filter_simps pngPart_def jpegPart_def
      textPart_def)

text \<open>
  Claim C3 as stated speaks of any part with inline data. A first candidate with two
  image parts shows the difference: the second part is there, and the interpreter does
  not return its data URI.
\<close>

theorem any_image_counterexample:
  "\<not> truthy (promptFeedback (respond None [pngPart, jpegPart] (Some (lit ''STOP'')) None)
       \<bind> blockReason) \<and>
   \<lparr>blobMimeType = Some (lit ''image/jpeg''), blobData = Some (lit ''REVG'')\<rparr>
     \<in> set (inlineParts (respond None [pngPart, jpegPart] (Some (lit ''STOP'')) None)) \<and>
   handleApiResponse (respond None [pngPart, jpegPart] (Some (lit ''STOP'')) None) Edit \<noteq>
     Inr (lit ''data:'' @ lit ''image/jpeg'' @ lit '';base64,'' @ lit ''REVG'')"
proof -
  let ?r = "respond None [pngPart, jpegPart] (Some (lit ''STOP'')) None"
  have nb: "\<not> truthy (promptFeedback ?r \<bind> blockReason)"
    by (simp add: respond_simps truthy_simps)
  have ps: "inlineParts ?r =
      [\<lparr>blobMimeType = Some (lit ''image/png''), blobData = Some (lit ''QUJD'')\<rparr>,
       \<lparr>blobMimeType = Some (lit ''image/jpeg''), blobData = Some (lit ''REVG'')\<rparr>]"
    by (simp add: respond_simps List.map_filter_simps pngPart_def jpegPart_def)
  have "handleApiResponse ?r Edit =
      Inr (lit ''data:'' @ lit ''image/png'' @ lit '';base64,'' @ lit ''QUJD'')"
    using nb ps by (simp add: handleApiResponse_image dataUri_def interpolate_Some)
  moreover have "lit ''data:'' @ lit ''image/png'' @ lit '';base64,'' @ lit ''QUJD'' \<noteq>
      lit ''data:'' @ lit ''image/jpeg'' @ lit '';base64,'' @ lit ''REVG''"
    by (simp add: lit_def)
  ultimately show ?thesis
    using nb ps by simp
qed

text \<open>
  Claim C4. With no block reason and no part with inline data in the first candidate, a
  finish reason that is present (a non-empty name) and is not \<^verbatim>\<open>STOP\<close> gives the
  generation-stopped error, and its message contains that finish reason.
\<close>

theorem abnormal_finish:
  assumes "\<not> truthy (promptFeedback r \<bind> blockReason)"
      and "inlineParts r = []"
      and "finishReasonOf r = Some reason" and "reason \<noteq> []" and "reason \<noteq> lit ''STOP''"
  shows "handleApiResponse r c =
           Inl (GenerationStoppedError (stoppedMessage (translatedContext c) (Some reason))) \<and>
         sublist reason (stoppedMessage (translatedContext c) (Some reason))"
proof -
  have "handleApiResponse r c =
      Inl (GenerationStoppedError (stoppedMessage (translatedContext c) (Some reason)))"
    using assms by (simp add: handleApiResponse_no_image truthy_simps)
  moreover have "sublist reason (stoppedMessage (translatedContext c) (Some reason))"
    unfolding stoppedMessage_def interpolate_Some
    by (metis append.assoc sublist_appendI)
  ultimately show ?thesis by blast
qed

theorem abnormal_finish_witness:
  "handleApiResponse (respond None [textPart] (Some (lit ''SAFETY'')) (Some (lit ''Here you are'')))
     Adjustment =
     Inl (GenerationStoppedError (stoppedMessage (translatedContext Adjustment)
       (Some (lit ''SAFETY''))))"
  using abnormal_finish [of
      "respond None [textPart] (Some (lit ''SAFETY'')) (Some (lit ''Here you are''))"
      "lit ''SAFETY''" Adjustment]
  by (simp add: respond_simps truthy_simps List.map_filter_simps textPart_def lit_def)



text \<open>
  Claim C8. The context tag changes the wording only. Under any two tags the
  interpreter succeeds with the same value or fails with an error of the same kind, and
  the kind of a failure is one of blocked request, generation stopped and no image.
\<close>

theorem context_only_wording:
  "map_sum kindOf id (handleApiResponse r c1) = map_sum kindOf id (handleApiResponse r c2) \<and>
   (case handleApiResponse r c1 of
      Inr v \<Rightarrow> True
    | Inl e \<Rightarrow> kindOf e = BlockedRequest \<or> kindOf e = GenerationStopped \<or>
               kindOf e = NoImageReturned)"
  by (auto simp: handleApiResponse_def Let_def split: option.splits)

theorem context_only_wording_witness:
  "map_sum kindOf id
     (handleApiResponse (respond None [textPart] (Some (lit ''SAFETY'')) None) Edit) =
   map_sum kindOf id
     (handleApiResponse (respond None [textPart] (Some (lit ''SAFETY'')) None) Filter)"
  using context_only_wording [of "respond None [textPart] (Some (lit ''SAFETY'')) None"
      Edit Filter]
  by simp

section \<open>The encoder\<close>

text \<open>
  Claim C6. A data URL without a comma, or one whose part before the first comma has no
  occurrence of a colon, a non-empty MIME type and a semicolon in this order, makes
  \<open>fileToPart\<close> fail with a decoding error. No operation called on such a file makes a
  network call, and with a credential each operation fails with that decoding error.
\<close>

theorem malformed_data_url:
  assumes "comma \<notin> set u \<or>
     \<not> (\<exists>a m b. takeWhile (\<lambda>c. c \<noteq> comma) u = a @ colon # m @ semicolon # b \<and> m \<noteq> [])"
  shows "fileToPart (OnLoad u) =
           Inl (DecodingError (if comma \<in> set u then noMimeType else invalidDataUrl)) \<and>
         networkCalls (fst (generateEditedImage ai apiKey (OnLoad u) userPrompt hotspot)) = [] \<and>
         networkCalls (fst (generateFilteredImage ai apiKey (OnLoad u) filterPrompt)) = [] \<and>
         networkCalls (fst (generateAdjustedImage ai apiKey (OnLoad u) adjustmentPrompt)) = [] \<and>
         (truthy apiKey \<longrightarrow>
            snd (generateEditedImage ai apiKey (OnLoad u) userPrompt hotspot) =
              Inl (DecodingError (if comma \<in> set u then noMimeType else invalidDataUrl)) \<and>
            snd (generateFilteredImage ai apiKey (OnLoad u) filterPrompt) =
              Inl (DecodingError (if comma \<in> set u then noMimeType else invalidDataUrl)) \<and>
            snd (generateAdjustedImage ai apiKey (OnLoad u) adjustmentPrompt) =
              Inl (DecodingError (if comma \<in> set u then noMimeType else invalidDataUrl)))"
proof -
  have enc: "fileToPart (OnLoad u) =
      Inl (DecodingError (if comma \<in> set u then noMimeType else invalidDataUrl))"
    using assms by (rule fileToPart_decoding)
  show ?thesis
    by (simp add: enc edit_without_image [OF enc] filter_without_image [OF enc]
        adjust_without_image [OF enc])
qed

theorem malformed_data_url_witness:
  "fileToPart (OnLoad (lit ''data:image/png;base64'')) = Inl (DecodingError invalidDataUrl) \<and>
   fileToPart (OnLoad (lit ''data;base64,QUJD'')) = Inl (DecodingError noMimeType) \<and>
   generateEditedImage (\<lambda>k q. None) (Some (lit ''key'')) (OnLoad (lit ''data;base64,QUJD''))
       (lit ''remove the lamp'') (Hotspot 12 34) =
     ([ReadAsDataURL (OnLoad (lit ''data;base64,QUJD''))], Inl (DecodingError noMimeType))"
proof -
  have a: "comma \<notin> set (lit ''data:image/png;base64'')"
    by (simp add: lit_def comma_def)
  have b: "comma \<in> set (lit ''data;base64,QUJD'')"
    by (simp add: lit_def comma_def)
  have tw: "takeWhile (\<lambda>c. c \<noteq> comma) (lit ''data;base64,QUJD'') = lit ''data;base64''"
    by (simp add: lit_def comma_def)
  have "colon \<notin> set (lit ''data;base64'')"
    by (simp add: lit_def colon_def)
  then have c: "\<not> (\<exists>a m b. takeWhile (\<lambda>c. c \<noteq> comma) (lit ''data;base64,QUJD'') =
      a @ colon # m @ semicolon # b \<and> m \<noteq> [])"
    unfolding tw by (metis in_set_conv_decomp)
  have k: "truthy (Some (lit ''key''))"
    by (simp add: truthy_def lit_def)
  from malformed_data_url [of "lit ''data:image/png;base64''"] a
  have 1: "fileToPart (OnLoad (lit ''data:image/png;base64'')) = Inl (DecodingError invalidDataUrl)"
    by simp
  from malformed_data_url [of "lit ''data;base64,QUJD''" "\<lambda>k q. None" "Some (lit ''key'')"
      "lit ''remove the lamp''" "Hotspot 12 34"] b c k
  have 2: "fileToPart (OnLoad (lit ''data;base64,QUJD'')) = Inl (DecodingError noMimeType)"
    and 3: "snd (generateEditedImage (\<lambda>k q. None) (Some (lit ''key''))
       (OnLoad (lit ''data;base64,QUJD'')) (lit ''remove the lamp'') (Hotspot 12 34)) =
         Inl (DecodingError noMimeType)"
    by simp_all
  from 1 2 3 k show ?thesis
    by (simp add: generateEditedImage_def)
qed

text \<open>
  Claim C7. Let the MIME type be well formed: not empty and free of commas, semicolons
  and line terminators, as the declared type of an image file is. Then for every data URL
  \<^verbatim>\<open>data:<mime>;base64,<data>\<close> whose data has no comma, \<open>fileToPart\<close> returns exactly this
  MIME type and this data. In particular, for a file with that declared type the returned
  MIME type is the declared one and the returned data is the base64 text of the file's
  bytes, which decodes to those bytes.
\<close>

theorem encode_round_trip:
  assumes "m \<noteq> []" and "comma \<notin> set m" and "semicolon \<notin> set m"
      and "\<not> list_ex isLineTerminator m"
  shows "(comma \<notin> set d \<longrightarrow>
            fileToPart (OnLoad (lit ''data:'' @ m @ lit '';base64,'' @ d)) =
              Inr \<lparr>mimeType = m, data = d\<rparr>) \<and>
         fileToPart (readAsDataURL \<lparr>fileType = m, fileBytes = bs\<rparr>) =
           Inr \<lparr>mimeType = m, data = base64 bs\<rparr> \<and>
         unbase64 (base64 bs) = Some bs"
  using assms
  by (simp add: fileToPart_data_url readAsDataURL_def base64_no_comma unbase64_base64)

theorem encode_round_trip_witness:
  "fileToPart (OnLoad (lit ''data:image/png;base64,QUJD'')) =
     Inr \<lparr>mimeType = lit ''image/png'', data = lit ''QUJD''\<rparr> \<and>
   readAsDataURL \<lparr>fileType = lit ''image/png'', fileBytes = [0x41, 0x42, 0x43]\<rparr> =
     OnLoad (lit ''data:image/png;base64,QUJD'') \<and>
   unbase64 (lit ''QUJD'') = Some [0x41, 0x42, 0x43]"
proof -
  have b: "base64 [0x41, 0x42, 0x43] = lit ''QUJD''"
    by (simp add: base64Char_def lit_def)
  have u: "lit ''data:'' @ lit ''image/png'' @ lit '';base64,'' @ lit ''QUJD'' =
      lit ''data:image/png;base64,QUJD''"
    by (simp add: lit_def)
  have h: "lit ''image/png'' \<noteq> []" "comma \<notin> set (lit ''image/png'')"
    "semicolon \<notin> set (lit ''image/png'')" "\<not> list_ex isLineTerminator (lit ''image/png'')"
    "comma \<notin> set (lit ''QUJD'')"
    by (simp_all add: lit_def comma_def semicolon_def isLineTerminator_def)
  from encode_round_trip [OF h(1-4), of "lit ''QUJD''" "[0x41, 0x42, 0x43]"] h(5)
  have 1: "fileToPart (OnLoad (lit ''data:'' @ lit ''image/png'' @ lit '';base64,'' @
        lit ''QUJD'')) = Inr \<lparr>mimeType = lit ''image/png'', data = lit ''QUJD''\<rparr>"
    and 3: "unbase64 (base64 [0x41, 0x42, 0x43]) = Some [0x41, 0x42, 0x43]"
    by blast+
  have 2: "readAsDataURL \<lparr>fileType = lit ''image/png'', fileBytes = [0x41, 0x42, 0x43]\<rparr> =
      OnLoad (lit ''data:image/png;base64,QUJD'')"
    unfolding readAsDataURL_def browserFile.simps b u by (rule refl)
  from 1 [unfolded u] 2 3 [unfolded b] show ?thesis
    by blast
qed

text \<open>
  Claim C10. A data URL with two commas or more does not fail the separator check.
  When the part before the first comma matches the MIME pattern, \<open>fileToPart\<close> succeeds,
  and the data it returns is the segment between the first and the second comma; what
  follows the second comma is dropped.
\<close>

theorem second_segment:
  assumes "comma \<notin> set a" and "comma \<notin> set b"
  shows "fileToPart (OnLoad (a @ comma # b @ comma # rest)) \<noteq>
           Inl (DecodingError invalidDataUrl) \<and>
         (\<forall>m. matchMime a = Some m \<and> m \<noteq> [] \<longrightarrow>
            fileToPart (OnLoad (a @ comma # b @ comma # rest)) =
              Inr \<lparr>mimeType = m, data = b\<rparr>)"
proof -
  have "splitStr comma (a @ comma # b @ comma # rest) = a # b # splitStr comma rest"
    using assms by (simp add: splitStr_at_sep)
  then show ?thesis
    by (auto simp: fileToPart_def messages_differ split: option.splits)
qed

theorem second_segment_witness:
  "fileToPart (OnLoad (lit ''data:image/png;base64'' @ comma # lit ''QUJD'' @ comma #
       lit ''REVG,R0hJ'')) =
     Inr \<lparr>mimeType = lit ''image/png'', data = lit ''QUJD''\<rparr>"
proof -
  have "matchMime (lit ''data:image/png;base64'') = Some (lit ''image/png'')"
    by (simp add: lit_def colon_def semicolon_def isLineTerminator_def)
  then show ?thesis
    using second_segment [of "lit ''data:image/png;base64''" "lit ''QUJD''" "lit ''REVG,R0hJ''"]
    by (simp add: lit_def comma_def)
qed

section \<open>The prompts\<close>

text \<open>
  Claim C9. Each prompt contains the user's instruction as it was given, and the edit
  prompt contains the two coordinates of the hotspot in decimal notation. The prompt is
  what an operation sends: with a credential and an encoded image, its one network call
  carries the image part and the prompt as the only contents.
\<close>

theorem prompts_sent:
  "sublist userPrompt (editPrompt userPrompt hotspot) \<and>
   sublist (lit ''(x: '' @ numberToString (hotspot_x hotspot) @ lit '', y: '' @
            numberToString (hotspot_y hotspot) @ lit '')'')
     (editPrompt userPrompt hotspot) \<and>
   sublist filterPrompt (filterPromptText filterPrompt) \<and>
   sublist adjustmentPrompt (adjustmentPromptText adjustmentPrompt) \<and>
   (truthy apiKey \<and> fileToPart originalImage = Inr imagePart \<longrightarrow>
      networkCalls (fst (generateEditedImage ai apiKey originalImage userPrompt hotspot)) =
        [(interpolate apiKey,
          \<lparr>model = modelName,
           contents = [ImagePart imagePart, TextPart (editPrompt userPrompt hotspot)]\<rparr>)] \<and>
      networkCalls (fst (generateFilteredImage ai apiKey originalImage filterPrompt)) =
        [(interpolate apiKey,
          \<lparr>model = modelName,
           contents = [ImagePart imagePart, TextPart (filterPromptText filterPrompt)]\<rparr>)] \<and>
      networkCalls (fst (generateAdjustedImage ai apiKey originalImage adjustmentPrompt)) =
        [(interpolate apiKey,
          \<lparr>model = modelName,
           contents = [ImagePart imagePart,
             TextPart (adjustmentPromptText adjustmentPrompt)]\<rparr>)])"
proof -
  have 1: "sublist userPrompt (editPrompt userPrompt hotspot)"
    unfolding editPrompt_def
    by (rule sublist_skip, rule sublist_skip, rule sublist_append_rightI)
  have l: "lit ''Edit Location: Focus on the area around pixel coordinates (x: '' =
      lit ''Edit Location: Focus on the area around pixel coordinates '' @ lit ''(x: ''"
    by (simp add: lit_def)
  have r: "lit '').\<newline>'' = lit '')'' @ lit ''.\<newline>''"
    by (simp add: lit_def)
  have 2: "sublist (lit ''(x: '' @ numberToString (hotspot_x hotspot) @ lit '', y: '' @
            numberToString (hotspot_y hotspot) @ lit '')'')
     (editPrompt userPrompt hotspot)"
    unfolding editPrompt_def l r append_assoc
    apply (rule sublist_skip, rule sublist_skip, rule sublist_skip, rule sublist_skip,
        rule sublist_skip)
    apply (rule prefix_imp_sublist)
    apply (simp only: same_prefix_prefix)
    apply (rule prefixI)
    apply (rule refl)
    done
  have 3: "sublist filterPrompt (filterPromptText filterPrompt)"
    unfolding filterPromptText_def
    by (rule sublist_skip, rule sublist_skip, rule sublist_append_rightI)
  have 4: "sublist adjustmentPrompt (adjustmentPromptText adjustmentPrompt)"
    unfolding adjustmentPromptText_def
    by (rule sublist_skip, rule sublist_skip, rule sublist_append_rightI)
  from 1 2 3 4 show ?thesis
    by (simp add: edit_with_image filter_with_image adjust_with_image)
qed

theorem prompts_sent_witness:
  "sublist (lit ''remove the lamp'') (editPrompt (lit ''remove the lamp'') (Hotspot 12 34)) \<and>
   sublist (lit ''(x: 12, y: 34)'') (editPrompt (lit ''remove the lamp'') (Hotspot 12 34)) \<and>
   networkCalls (fst (generateEditedImage (\<lambda>k q. None) (Some (lit ''key''))
       (OnLoad (lit ''data:image/png;base64,QUJD'')) (lit ''remove the lamp'') (Hotspot 12 34))) =
     [(lit ''key'',
       \<lparr>model = modelName,
        contents = [ImagePart \<lparr>mimeType = lit ''image/png'', data = lit ''QUJD''\<rparr>,
          TextPart (editPrompt (lit ''remove the lamp'') (Hotspot 12 34))]\<rparr>)]"
proof -
  have n: "lit ''(x: '' @ numberToString 12 @ lit '', y: '' @ numberToString 34 @ lit '')'' =
      lit ''(x: 12, y: 34)''"
    by (simp add: numberToString_def lit_def)
  have k: "truthy (Some (lit ''key''))"
    by (simp add: truthy_simps lit_nonempty)
  show ?thesis
    using prompts_sent [of "lit ''remove the lamp''" "Hotspot 12 34" _ _ "Some (lit ''key'')"
        "OnLoad (lit ''data:image/png;base64,QUJD'')"
        "\<lparr>mimeType = lit ''image/png'', data = lit ''QUJD''\<rparr>" "\<lambda>k q. None"]
      n k pngFile
    by (simp add: interpolate_Some)
qed

end
